theory Spec2Isabelle
  imports Main
begin

section \<open>Values, requests and responses\<close>

text \<open>
  The client \<^verbatim>\<open>dli.py\<close> talks JSON over HTTP to a Digital Loggers power switch.
  A decoded JSON document is a value of \<open>json\<close>. Strings are byte strings (UTF-8).
  Numbers are the integers; a JSON number with a fraction is outside the model.
  \<open>JObj\<close> lists the members of an object in document order.
\<close>

datatype json =
    JNull
  | JBool bool
  | JInt int
  | JStr string
  | JArr "json list"
  | JObj "(string \<times> json) list"

datatype http_method = GET | PUT | POST

text \<open>
  One call of \<^verbatim>\<open>Session.get/put/post\<close>: the method, the URL, the session's headers and
  credentials, and the \<^verbatim>\<open>json=\<close> argument when there is one.
\<close>

record request =
  rq_method :: http_method
  rq_url :: string
  rq_headers :: "(string \<times> string) list"
  rq_auth :: "string \<times> string"
  rq_json :: "json option"

text \<open>
  A \<^verbatim>\<open>requests.Response\<close>: the status code, the body, and what \<^verbatim>\<open>r.json()\<close>
  gives for that body (\<open>None\<close> when the body is not JSON and \<^verbatim>\<open>r.json()\<close> raises).
\<close>

record response =
  status_code :: nat
  body :: string
  decoded :: "json option"

text \<open>The exceptions that can leave the client.\<close>

datatype py_error =
    KeyError string
  | TypeError
  | JSONDecodeError
  | HTTPError response
  | ConnectionError

text \<open>
  The network as the client sees it: \<open>respond\<close> is the device together with the
  transport (given the requests made so far and the next one, the response, or \<open>None\<close>
  when no response arrives), and \<open>sent\<close> is the log of the requests issued so far.
\<close>

record net =
  respond :: "request list \<Rightarrow> request \<Rightarrow> response option"
  sent :: "request list"

section \<open>Python built-ins used by the client\<close>

text \<open>\<^verbatim>\<open>str(n)\<close> for an integer: decimal digits, with a minus sign when negative.\<close>

fun str_nat :: "nat \<Rightarrow> string" where
  "str_nat n =
     (if n < 10 then [''0123456789'' ! n]
      else str_nat (n div 10) @ [''0123456789'' ! (n mod 10)])"

declare str_nat.simps [simp del]

definition str_int :: "int \<Rightarrow> string" where
  "str_int i = (if i < 0 then CHR ''-'' # str_nat (nat (- i)) else str_nat (nat i))"

text \<open>
  \<^verbatim>\<open>int(s)\<close> for a string is not part of the repository, and which strings it accepts
  depends on the interpreter (its Unicode tables, its limit on the number of digits).
  The client is therefore modelled over any such function, passed as \<open>int_of\<close>:
  \<open>int_of s = Some k\<close> when \<^verbatim>\<open>int(s)\<close> returns \<open>k\<close>, and \<open>int_of s = None\<close> when it raises
  \<^verbatim>\<open>ValueError\<close>.
\<close>

type_synonym int_builtin = "string \<Rightarrow> int option"

text \<open>Truthiness of a decoded value, as \<^verbatim>\<open>if x\<close> and \<^verbatim>\<open>x or y\<close> test it.\<close>

fun truthy :: "json \<Rightarrow> bool" where
  "truthy JNull = False"
| "truthy (JBool b) = b"
| "truthy (JInt i) = (i \<noteq> 0)"
| "truthy (JStr s) = (s \<noteq> [])"
| "truthy (JArr xs) = (xs \<noteq> [])"
| "truthy (JObj kvs) = (kvs \<noteq> [])"

text \<open>
  \<^verbatim>\<open>str(x)\<close> of a decoded value. The text of a list or a dict is Python's \<^verbatim>\<open>repr\<close> of
  its elements, which is not modelled: \<open>None\<close> stands for it.
\<close>

fun py_str :: "json \<Rightarrow> string option" where
  "py_str JNull = Some ''None''"
| "py_str (JBool b) = Some (if b then ''True'' else ''False'')"
| "py_str (JInt i) = Some (str_int i)"
| "py_str (JStr s) = Some s"
| "py_str (JArr xs) = None"
| "py_str (JObj kvs) = None"

text \<open>
  \<^verbatim>\<open>o[key]\<close> with a string key. The JSON decoder keeps the last value of a repeated
  member name. Anything but a dict refuses a string subscript with \<^verbatim>\<open>TypeError\<close>.
\<close>

definition dict_get :: "(string \<times> json) list \<Rightarrow> string \<Rightarrow> json option" where
  "dict_get kvs k = map_of (rev kvs) k"

fun getitem :: "json \<Rightarrow> string \<Rightarrow> py_error + json" where
  "getitem (JObj kvs) k =
     (case dict_get kvs k of None \<Rightarrow> Inl (KeyError k) | Some v \<Rightarrow> Inr v)"
| "getitem _ k = Inl TypeError"

text \<open>
  The elements a \<^verbatim>\<open>for\<close> loop (or \<^verbatim>\<open>enumerate\<close>) runs over: the elements of a list,
  the keys of a dict (each once, in the order of their first occurrence), the characters
  of a string; the other values are not iterable.
\<close>

fun py_iter :: "json \<Rightarrow> py_error + json list" where
  "py_iter (JArr xs) = Inr xs"
| "py_iter (JObj kvs) = Inr (map JStr (rev (remdups (rev (map fst kvs)))))"
| "py_iter (JStr s) = Inr (map (\<lambda>c. JStr [c]) s)"
| "py_iter _ = Inl TypeError"

section \<open>The client: class DLIPDU\<close>

record DLIPDU =
  host :: string
  s_auth :: "string \<times> string"
  s_headers :: "(string \<times> string) list"

definition DLIPDU_init :: "string \<Rightarrow> string \<times> string \<Rightarrow> DLIPDU" where
  "DLIPDU_init h a = \<lparr>host = h, s_auth = a, s_headers = [(''X-CSRF'', ''X'')]\<rparr>"

text \<open>\<^verbatim>\<open>_pathto\<close>: \<^verbatim>\<open>urlunparse\<close> of scheme http, the host and the endpoint path.\<close>

definition pathto :: "DLIPDU \<Rightarrow> string \<Rightarrow> string" where
  "pathto pdu endpoint = ''http://'' @ host pdu @ endpoint"

text \<open>
  One call on the session. The request carries the session's headers and credentials;
  it is logged, and the transport answers or fails.
\<close>

definition build_request :: "DLIPDU \<Rightarrow> http_method \<Rightarrow> string \<Rightarrow> json option \<Rightarrow> request" where
  "build_request pdu m u j =
     \<lparr>rq_method = m, rq_url = u, rq_headers = s_headers pdu,
      rq_auth = s_auth pdu, rq_json = j\<rparr>"

definition session_request ::
  "DLIPDU \<Rightarrow> http_method \<Rightarrow> string \<Rightarrow> json option \<Rightarrow> net \<Rightarrow> (py_error + response) \<times> net" where
  "session_request pdu m u j n =
     (let rq = build_request pdu m u j
      in ((case respond n (sent n) rq of None \<Rightarrow> Inl ConnectionError | Some r \<Rightarrow> Inr r),
          n\<lparr>sent := sent n @ [rq]\<rparr>))"

text \<open>
  \<^verbatim>\<open>Response.raise_for_status\<close> of the requests library raises \<^verbatim>\<open>HTTPError\<close>, which
  carries the response, for a client error (400 to 499) or a server error (500 to 599).
\<close>

definition error_status :: "nat \<Rightarrow> bool" where
  "error_status c = (400 \<le> c \<and> c < 600)"

definition raise_for_status :: "response \<Rightarrow> py_error + unit" where
  "raise_for_status r = (if error_status (status_code r) then Inl (HTTPError r) else Inr ())"

definition response_json :: "response \<Rightarrow> py_error + json" where
  "response_json r = (case decoded r of None \<Rightarrow> Inl JSONDecodeError | Some j \<Rightarrow> Inr j)"

definition state_url :: "DLIPDU \<Rightarrow> int \<Rightarrow> string" where
  "state_url pdu outlet_idx =
     pathto pdu (''/restapi/relay/outlets/'' @ str_int outlet_idx @ ''/state/'')"

definition cycle_url :: "DLIPDU \<Rightarrow> int \<Rightarrow> string" where
  "cycle_url pdu outlet_idx =
     pathto pdu (''/restapi/relay/outlets/'' @ str_int outlet_idx @ ''/cycle/'')"

definition physical_state_url :: "DLIPDU \<Rightarrow> int \<Rightarrow> string" where
  "physical_state_url pdu outlet_idx =
     pathto pdu (''/restapi/relay/outlets/'' @ str_int outlet_idx @ ''/physical_state/'')"

definition outlets_url :: "DLIPDU \<Rightarrow> string" where
  "outlets_url pdu = pathto pdu ''/restapi/relay/outlets/''"

definition set_state :: "DLIPDU \<Rightarrow> int \<Rightarrow> bool \<Rightarrow> net \<Rightarrow> (py_error + unit) \<times> net" where
  "set_state pdu outlet_idx state n =
     (case session_request pdu PUT (state_url pdu outlet_idx) (Some (JBool state)) n of
        (Inl e, n') \<Rightarrow> (Inl e, n')
      | (Inr r, n') \<Rightarrow> (raise_for_status r, n'))"

definition on :: "DLIPDU \<Rightarrow> int \<Rightarrow> net \<Rightarrow> (py_error + unit) \<times> net" where
  "on pdu outlet_idx n = set_state pdu outlet_idx True n"

definition off :: "DLIPDU \<Rightarrow> int \<Rightarrow> net \<Rightarrow> (py_error + unit) \<times> net" where
  "off pdu outlet_idx n = set_state pdu outlet_idx True n"

definition cycle :: "DLIPDU \<Rightarrow> int \<Rightarrow> net \<Rightarrow> (py_error + unit) \<times> net" where
  "cycle pdu outlet_idx n =
     (case session_request pdu POST (cycle_url pdu outlet_idx) None n of
        (Inl e, n') \<Rightarrow> (Inl e, n')
      | (Inr r, n') \<Rightarrow> (raise_for_status r, n'))"

definition get_json :: "DLIPDU \<Rightarrow> string \<Rightarrow> net \<Rightarrow> (py_error + json) \<times> net" where
  "get_json pdu u n =
     (case session_request pdu GET u None n of
        (Inl e, n') \<Rightarrow> (Inl e, n')
      | (Inr r, n') \<Rightarrow> (response_json r, n'))"

definition configured_state :: "DLIPDU \<Rightarrow> int \<Rightarrow> net \<Rightarrow> (py_error + json) \<times> net" where
  "configured_state pdu outlet_idx n = get_json pdu (state_url pdu outlet_idx) n"

definition physical_state :: "DLIPDU \<Rightarrow> int \<Rightarrow> net \<Rightarrow> (py_error + json) \<times> net" where
  "physical_state pdu outlet_idx n = get_json pdu (physical_state_url pdu outlet_idx) n"

definition outlets :: "DLIPDU \<Rightarrow> net \<Rightarrow> (py_error + json) \<times> net" where
  "outlets pdu n = get_json pdu (outlets_url pdu) n"

text \<open>
  The loop of \<^verbatim>\<open>_outlet2idx\<close> over \<^verbatim>\<open>enumerate(outlets)\<close>, from position \<open>i\<close> on: the
  first element whose \<^verbatim>\<open>name\<close> equals the token gives its position; when the loop runs
  out, \<^verbatim>\<open>KeyError\<close> is raised.
\<close>

definition no_outlet :: "string \<Rightarrow> py_error" where
  "no_outlet outlet = KeyError (''no outlet called `'' @ outlet @ ''` exists'')"

fun scan_outlets :: "string \<Rightarrow> nat \<Rightarrow> json list \<Rightarrow> py_error + int" where
  "scan_outlets outlet i [] = Inl (no_outlet outlet)"
| "scan_outlets outlet i (x # xs) =
     (case getitem x ''name'' of
        Inl e \<Rightarrow> Inl e
      | Inr v \<Rightarrow> if v = JStr outlet then Inr (int i) else scan_outlets outlet (Suc i) xs)"

text \<open>
  \<^verbatim>\<open>_outlet2idx\<close>: \<^verbatim>\<open>int(outlet)\<close> is tried first, and its value returned; only when it
  raises \<^verbatim>\<open>ValueError\<close> is the listing fetched and scanned.
\<close>

definition outlet2idx ::
  "int_builtin \<Rightarrow> DLIPDU \<Rightarrow> string \<Rightarrow> net \<Rightarrow> (py_error + int) \<times> net" where
  "outlet2idx int_of pdu outlet n =
     (case int_of outlet of
        Some k \<Rightarrow> (Inr k, n)
      | None \<Rightarrow>
          (case outlets pdu n of
             (Inl e, n') \<Rightarrow> (Inl e, n')
           | (Inr j, n') \<Rightarrow>
               (case py_iter j of
                  Inl e \<Rightarrow> (Inl e, n')
                | Inr xs \<Rightarrow> (scan_outlets outlet 0 xs, n'))))"

section \<open>The command line\<close>

text \<open>
  The commands take the client object that \<^verbatim>\<open>cli\<close> builds from the profile. \<^verbatim>\<open>set\<close>
  and \<^verbatim>\<open>cycle\<close> resolve the outlet argument first; an exception of either step ends the
  command.
\<close>

definition cli_set ::
  "int_builtin \<Rightarrow> DLIPDU \<Rightarrow> string \<Rightarrow> string \<Rightarrow> net \<Rightarrow> (py_error + unit) \<times> net" where
  "cli_set int_of pdu outlet state n =
     (case outlet2idx int_of pdu outlet n of
        (Inl e, n') \<Rightarrow> (Inl e, n')
      | (Inr i, n') \<Rightarrow> set_state pdu i (state = ''on'') n')"

definition cli_cycle ::
  "int_builtin \<Rightarrow> DLIPDU \<Rightarrow> string \<Rightarrow> net \<Rightarrow> (py_error + unit) \<times> net" where
  "cli_cycle int_of pdu outlet n =
     (case outlet2idx int_of pdu outlet n of
        (Inl e, n') \<Rightarrow> (Inl e, n')
      | (Inr i, n') \<Rightarrow> cycle pdu i n')"

text \<open>\<^verbatim>\<open>_on(x)\<close>, and \<^verbatim>\<open>x or y\<close>.\<close>

definition cli_on :: "json \<Rightarrow> string" where
  "cli_on x = (if truthy x then ''on'' else ''off'')"

definition py_or :: "json \<Rightarrow> json \<Rightarrow> json" where
  "py_or x y = (if truthy x then x else y)"

text \<open>The placeholder of the last column: the wave dash U+301C, in UTF-8.\<close>

definition wave_dash :: string where
  "wave_dash = [CHR 0xE3, CHR 0x80, CHR 0x9C]"

text \<open>
  One row per \<^verbatim>\<open>table.add_row\<close>. The name cell is the decoded value itself, the
  others are strings; the last is \<^verbatim>\<open>str\<close> of a decoded value.
\<close>

record row =
  col_idx :: string
  col_name :: json
  col_configured :: string
  col_physical :: string
  col_cycle :: "string option"

fun outlet_rows :: "nat \<Rightarrow> json list \<Rightarrow> py_error + row list" where
  "outlet_rows i [] = Inr []"
| "outlet_rows i (x # xs) =
     (case getitem x ''name'' of Inl e \<Rightarrow> Inl e | Inr nm \<Rightarrow>
      (case getitem x ''state'' of Inl e \<Rightarrow> Inl e | Inr st \<Rightarrow>
      (case getitem x ''physical_state'' of Inl e \<Rightarrow> Inl e | Inr ph \<Rightarrow>
      (case getitem x ''cycle_delay'' of Inl e \<Rightarrow> Inl e | Inr cd \<Rightarrow>
      (case outlet_rows (Suc i) xs of Inl e \<Rightarrow> Inl e | Inr rs \<Rightarrow>
         Inr (\<lparr>col_idx = str_int (int i), col_name = nm, col_configured = cli_on st,
               col_physical = cli_on ph,
               col_cycle = py_str (py_or cd (JStr wave_dash))\<rparr> # rs))))))"

definition cli_outlets :: "DLIPDU \<Rightarrow> net \<Rightarrow> (py_error + row list) \<times> net" where
  "cli_outlets pdu n =
     (case outlets pdu n of
        (Inl e, n') \<Rightarrow> (Inl e, n')
      | (Inr j, n') \<Rightarrow>
          (case py_iter j of
             Inl e \<Rightarrow> (Inl e, n')
           | Inr xs \<Rightarrow> (outlet_rows 0 xs, n')))"

section \<open>A device and a parser for the examples\<close>

text \<open>
  A client for the host \<^verbatim>\<open>pdu.lan\<close>, and a network on which nothing has been sent
  yet and every request gets the same response: status \<open>c\<close>, and a body that decodes to
  \<open>j\<close>.
\<close>

definition demo :: DLIPDU where
  "demo = DLIPDU_init ''pdu.lan'' (''admin'', ''1234'')"

definition answering :: "nat \<Rightarrow> json option \<Rightarrow> net" where
  "answering c j =
     \<lparr>respond = (\<lambda>_ _. Some \<lparr>status_code = c, body = [], decoded = j\<rparr>), sent = []\<rparr>"

definition named :: "string \<Rightarrow> json" where
  "named s = JObj [(''name'', JStr s)]"

text \<open>
  A parser for the examples: what \<^verbatim>\<open>int(s)\<close> of CPython 3.11 gives on a string of ASCII
  characters. White space (tab, line feed, vertical tab, form feed, carriage return,
  space) is dropped at both ends; one sign may come first; then come decimal digits,
  where single underscores may stand between two digits; more than 4300 digits are
  refused. It is used on ASCII tokens only.
\<close>

definition ascii_space :: "char \<Rightarrow> bool" where
  "ascii_space c = (of_char c \<in> {9::nat, 10, 11, 12, 13, 32})"

definition strip :: "string \<Rightarrow> string" where
  "strip s = rev (dropWhile ascii_space (rev (dropWhile ascii_space s)))"

definition digit_val :: "char \<Rightarrow> nat option" where
  "digit_val c =
     (if 48 \<le> (of_char c :: nat) \<and> (of_char c :: nat) \<le> 57
      then Some (of_char c - 48) else None)"

fun after_digit :: "nat \<Rightarrow> string \<Rightarrow> nat option" where
  "after_digit acc [] = Some acc"
| "after_digit acc [c] =
     (case digit_val c of None \<Rightarrow> None | Some v \<Rightarrow> Some (acc * 10 + v))"
| "after_digit acc (c # d # ds) =
     (if c = CHR ''_''
      then (case digit_val d of None \<Rightarrow> None | Some v \<Rightarrow> after_digit (acc * 10 + v) ds)
      else (case digit_val c of None \<Rightarrow> None
            | Some v \<Rightarrow> after_digit (acc * 10 + v) (d # ds)))"

definition digits :: "string \<Rightarrow> nat option" where
  "digits s =
     (if 4300 < length (filter (\<lambda>c. c \<noteq> CHR ''_'') s) then None
      else case s of [] \<Rightarrow> None
      | c # cs \<Rightarrow> (case digit_val c of None \<Rightarrow> None | Some v \<Rightarrow> after_digit v cs))"

definition ascii_int :: int_builtin where
  "ascii_int s =
     (case strip s of
        [] \<Rightarrow> None
      | c # cs \<Rightarrow>
          if c = CHR ''-'' then map_option (\<lambda>n. - int n) (digits cs)
          else if c = CHR ''+'' then map_option int (digits cs)
          else map_option int (digits (c # cs)))"

section \<open>What one call does to the network\<close>

lemma session_request_net:
  "snd (session_request pdu m u j n) = n\<lparr>sent := sent n @ [build_request pdu m u j]\<rparr>"
  by (simp add: session_request_def Let_def)

lemma session_request_result:
  "fst (session_request pdu m u j n) =
     (case respond n (sent n) (build_request pdu m u j) of
        None \<Rightarrow> Inl ConnectionError | Some r \<Rightarrow> Inr r)"
  by (simp add: session_request_def Let_def)

lemma set_state_net:
  "snd (set_state pdu i st n) =
     n\<lparr>sent := sent n @ [build_request pdu PUT (state_url pdu i) (Some (JBool st))]\<rparr>"
  by (simp add: set_state_def session_request_def Let_def split: option.splits)

lemma set_state_result:
  "fst (set_state pdu i st n) =
     (case respond n (sent n) (build_request pdu PUT (state_url pdu i) (Some (JBool st))) of
        None \<Rightarrow> Inl ConnectionError
      | Some r \<Rightarrow> raise_for_status r)"
  by (simp add: set_state_def session_request_def Let_def split: option.splits)

lemma cycle_net:
  "snd (cycle pdu i n) = n\<lparr>sent := sent n @ [build_request pdu POST (cycle_url pdu i) None]\<rparr>"
  by (simp add: cycle_def session_request_def Let_def split: option.splits)

lemma cycle_result:
  "fst (cycle pdu i n) =
     (case respond n (sent n) (build_request pdu POST (cycle_url pdu i) None) of
        None \<Rightarrow> Inl ConnectionError
      | Some r \<Rightarrow> raise_for_status r)"
  by (simp add: cycle_def session_request_def Let_def split: option.splits)

lemma get_json_net:
  "snd (get_json pdu u n) = n\<lparr>sent := sent n @ [build_request pdu GET u None]\<rparr>"
  by (simp add: get_json_def session_request_def Let_def split: option.splits)

lemma get_json_result:
  "fst (get_json pdu u n) =
     (case respond n (sent n) (build_request pdu GET u None) of
        None \<Rightarrow> Inl ConnectionError
      | Some r \<Rightarrow> response_json r)"
  by (simp add: get_json_def session_request_def Let_def split: option.splits)

lemma response_json_not_http: "response_json r \<noteq> Inl (HTTPError x)"
  by (simp add: response_json_def split: option.splits)

section \<open>The writes\<close>

text \<open>
  C1. The claim: \<^verbatim>\<open>off(i)\<close> issues a state-setting write with desired state false,
  while \<^verbatim>\<open>on(i)\<close> issues one with true. The code does not: \<^verbatim>\<open>off\<close> calls
  \<^verbatim>\<open>set_state(outlet_idx, True)\<close>, so for every index it does exactly what \<^verbatim>\<open>on\<close> does,
  and the one request it issues is the PUT to the outlet's state with the JSON body
  \<^verbatim>\<open>true\<close>.
\<close>

theorem off_sends_true:
  "off pdu i n = on pdu i n \<and>
   sent (snd (off pdu i n)) =
     sent n @ [\<lparr>rq_method = PUT,
                rq_url = ''http://'' @ host pdu @ ''/restapi/relay/outlets/'' @ str_int i @ ''/state/'',
                rq_headers = s_headers pdu, rq_auth = s_auth pdu,
                rq_json = Some (JBool True)\<rparr>]"
  by (simp add: off_def on_def set_state_net build_request_def state_url_def pathto_def)

text \<open>
  C4. \<^verbatim>\<open>set_state\<close> issues one PUT carrying the desired state. It returns without an
  exception exactly when the device answers with a status that is not an error status;
  when the device answers with an error status it raises \<^verbatim>\<open>HTTPError\<close>, which carries
  the response and so its status code and body.
\<close>

theorem set_state_outcome:
  "sent (snd (set_state pdu i st n)) =
     sent n @ [build_request pdu PUT (state_url pdu i) (Some (JBool st))] \<and>
   (fst (set_state pdu i st n) = Inr () \<longleftrightarrow>
     (\<exists>r. respond n (sent n) (build_request pdu PUT (state_url pdu i) (Some (JBool st))) = Some r
          \<and> \<not> error_status (status_code r))) \<and>
   (\<forall>r. respond n (sent n) (build_request pdu PUT (state_url pdu i) (Some (JBool st))) = Some r
          \<and> error_status (status_code r)
        \<longrightarrow> fst (set_state pdu i st n) = Inl (HTTPError r))"
  by (auto simp: set_state_net set_state_result raise_for_status_def split: option.splits)

text \<open>
  The example of the specification: \<^verbatim>\<open>set_state(2, True)\<close> completes under HTTP 200 and
  raises the error carrying status 500 under HTTP 500.
\<close>

theorem set_state_outcome_witness:
  "fst (set_state demo 2 True (answering 200 None)) = Inr () \<and>
   fst (set_state demo 2 True (answering 500 None)) =
     Inl (HTTPError \<lparr>status_code = 500, body = [], decoded = None\<rparr>)"
proof -
  have a: "respond (answering 200 None) (sent (answering 200 None))
             (build_request demo PUT (state_url demo 2) (Some (JBool True)))
           = Some \<lparr>status_code = 200, body = [], decoded = None\<rparr>
         \<and> \<not> error_status (status_code \<lparr>status_code = 200, body = [], decoded = None\<rparr>)"
    by (simp add: answering_def error_status_def)
  have b: "respond (answering 500 None) (sent (answering 500 None))
             (build_request demo PUT (state_url demo 2) (Some (JBool True)))
           = Some \<lparr>status_code = 500, body = [], decoded = None\<rparr>
         \<and> error_status (status_code \<lparr>status_code = 500, body = [], decoded = None\<rparr>)"
    by (simp add: answering_def error_status_def)
  from a set_state_outcome [of demo 2 True "answering 200 None"]
  have "fst (set_state demo 2 True (answering 200 None)) = Inr ()" by blast
  moreover from b set_state_outcome [of demo 2 True "answering 500 None"]
  have "fst (set_state demo 2 True (answering 500 None)) =
     Inl (HTTPError \<lparr>status_code = 500, body = [], decoded = None\<rparr>)" by blast
  ultimately show ?thesis by simp
qed

section \<open>Resolving an outlet\<close>

text \<open>
  C2. Whatever \<^verbatim>\<open>int\<close> accepts is returned as the integer it denotes: when \<^verbatim>\<open>int(outlet)\<close>
  returns \<open>k\<close>, \<^verbatim>\<open>_outlet2idx\<close> returns \<open>k\<close>, no request is issued (the network, and so
  the log of requests, is left as it was) and the outlet names are never looked at. This
  holds on every device, one with an outlet named like the token included.
\<close>

theorem outlet2idx_numeric:
  "int_of tok = Some k \<Longrightarrow>
     outlet2idx int_of pdu tok n = (Inr k, n) \<and> sent (snd (outlet2idx int_of pdu tok n)) = sent n"
  by (simp add: outlet2idx_def)

text \<open>
  The token \<^verbatim>\<open>"3"\<close> gives 3 on a device whose outlet at position 1 is named \<^verbatim>\<open>"3"\<close>,
  and nothing is sent; so do \<^verbatim>\<open>" 3"\<close> and \<^verbatim>\<open>"+3"\<close>, while \<^verbatim>\<open>"0_3"\<close> gives 3 as well and
  \<^verbatim>\<open>"-3"\<close> gives -3.
\<close>

theorem outlet2idx_numeric_witness:
  "ascii_int ''3'' = Some 3 \<and>
   outlet2idx ascii_int demo ''3'' (answering 200 (Some (JArr [named ''lamp'', named ''3''])))
     = (Inr 3, answering 200 (Some (JArr [named ''lamp'', named ''3'']))) \<and>
   sent (snd (outlet2idx ascii_int demo ''3''
     (answering 200 (Some (JArr [named ''lamp'', named ''3'']))))) = [] \<and>
   fst (outlet2idx ascii_int demo '' 3'' (answering 200 (Some (JArr [named ''lamp''])))) = Inr 3 \<and>
   fst (outlet2idx ascii_int demo ''+3'' (answering 200 (Some (JArr [named ''lamp''])))) = Inr 3 \<and>
   fst (outlet2idx ascii_int demo ''0_3'' (answering 200 (Some (JArr [named ''lamp''])))) = Inr 3 \<and>
   fst (outlet2idx ascii_int demo ''-3'' (answering 200 (Some (JArr [named ''lamp''])))) = Inr (- 3)"
proof -
  let ?n = "answering 200 (Some (JArr [named ''lamp'', named ''3'']))"
  let ?m = "answering 200 (Some (JArr [named ''lamp'']))"
  have h: "ascii_int ''3'' = Some 3" by code_simp
  have h1: "ascii_int '' 3'' = Some 3" by code_simp
  have h2: "ascii_int ''+3'' = Some 3" by code_simp
  have h3: "ascii_int ''0_3'' = Some 3" by code_simp
  have h4: "ascii_int ''-3'' = Some (- 3)" by code_simp
  have s0: "sent ?n = []" by (simp add: answering_def)
  note t = outlet2idx_numeric [of ascii_int "''3''" 3 demo ?n, OF h]
  note t1 = outlet2idx_numeric [of ascii_int "'' 3''" 3 demo ?m, OF h1]
  note t2 = outlet2idx_numeric [of ascii_int "''+3''" 3 demo ?m, OF h2]
  note t3 = outlet2idx_numeric [of ascii_int "''0_3''" 3 demo ?m, OF h3]
  note t4 = outlet2idx_numeric [of ascii_int "''-3''" "- 3" demo ?m, OF h4]
  from t s0 have a: "outlet2idx ascii_int demo ''3'' ?n = (Inr 3, ?n)"
    and b: "sent (snd (outlet2idx ascii_int demo ''3'' ?n)) = []" by simp_all
  from t1 have c1: "fst (outlet2idx ascii_int demo '' 3'' ?m) = Inr 3" by simp
  from t2 have c2: "fst (outlet2idx ascii_int demo ''+3'' ?m) = Inr 3" by simp
  from t3 have c3: "fst (outlet2idx ascii_int demo ''0_3'' ?m) = Inr 3" by simp
  from t4 have c4: "fst (outlet2idx ascii_int demo ''-3'' ?m) = Inr (- 3)" by simp
  from h a b c1 c2 c3 c4 show ?thesis by blast
qed

section \<open>The reads and the power cycle\<close>

text \<open>
  C6. \<^verbatim>\<open>outlets()\<close> issues exactly one request, a GET of \<^verbatim>\<open>/restapi/relay/outlets/\<close>
  on the client's host, and returns what the response decodes to as it is: nothing is
  reordered, dropped or added, so an outlet's index is its position in the device's
  answer.
\<close>

theorem outlets_one_get:
  "snd (outlets pdu n) =
     n\<lparr>sent := sent n @ [\<lparr>rq_method = GET,
                rq_url = ''http://'' @ host pdu @ ''/restapi/relay/outlets/'',
                rq_headers = s_headers pdu, rq_auth = s_auth pdu, rq_json = None\<rparr>]\<rparr> \<and>
   (\<forall>r j. respond n (sent n) (build_request pdu GET (outlets_url pdu) None) = Some r
            \<and> decoded r = Some j
        \<longrightarrow> fst (outlets pdu n) = Inr j)"
  by (simp add: outlets_def get_json_net get_json_result response_json_def
        build_request_def outlets_url_def pathto_def)

text \<open>A device reporting lamp, pump and fan: one GET, and the three outlets in order.\<close>

theorem outlets_one_get_witness:
  "sent (snd (outlets demo (answering 200 (Some (JArr [named ''lamp'', named ''pump'', named ''fan''])))))
     = [\<lparr>rq_method = GET, rq_url = ''http://pdu.lan/restapi/relay/outlets/'',
         rq_headers = [(''X-CSRF'', ''X'')], rq_auth = (''admin'', ''1234''), rq_json = None\<rparr>] \<and>
   fst (outlets demo (answering 200 (Some (JArr [named ''lamp'', named ''pump'', named ''fan'']))))
     = Inr (JArr [named ''lamp'', named ''pump'', named ''fan''])"
proof -
  let ?j = "JArr [named ''lamp'', named ''pump'', named ''fan'']"
  let ?n = "answering 200 (Some ?j)"
  have h: "respond ?n (sent ?n) (build_request demo GET (outlets_url demo) None)
             = Some \<lparr>status_code = 200, body = [], decoded = Some ?j\<rparr>
           \<and> decoded \<lparr>status_code = 200, body = [], decoded = Some ?j\<rparr> = Some ?j"
    by (simp add: answering_def)
  from outlets_one_get [of demo ?n] h
  have r: "fst (outlets demo ?n) = Inr ?j" by blast
  from outlets_one_get [of demo ?n]
  have "sent (snd (outlets demo ?n)) =
     sent ?n @ [\<lparr>rq_method = GET,
                rq_url = ''http://'' @ host demo @ ''/restapi/relay/outlets/'',
                rq_headers = s_headers demo, rq_auth = s_auth demo, rq_json = None\<rparr>]"
    by simp
  then have "sent (snd (outlets demo ?n))
     = [\<lparr>rq_method = GET, rq_url = ''http://pdu.lan/restapi/relay/outlets/'',
         rq_headers = [(''X-CSRF'', ''X'')], rq_auth = (''admin'', ''1234''), rq_json = None\<rparr>]"
    by (simp add: answering_def demo_def DLIPDU_init_def)
  with r show ?thesis by simp
qed

text \<open>
  C7. \<^verbatim>\<open>cycle(i)\<close> issues exactly one request, a POST of
  \<^verbatim>\<open>/restapi/relay/outlets/{i}/cycle/\<close> with no body. Its outcome is decided by the
  response to that request alone: it returns when the device has answered with a status
  that is not an error status, whatever the outlet's \<^verbatim>\<open>cycle_delay\<close> (which the client
  never reads here: no other request is made), and raises \<^verbatim>\<open>HTTPError\<close> on an error
  status. A non-success status is read as \<^verbatim>\<open>raise_for_status\<close> reads it: 400 to 599.
\<close>

theorem cycle_one_post:
  "snd (cycle pdu i n) =
     n\<lparr>sent := sent n @ [\<lparr>rq_method = POST,
                rq_url = ''http://'' @ host pdu @ ''/restapi/relay/outlets/'' @ str_int i @ ''/cycle/'',
                rq_headers = s_headers pdu, rq_auth = s_auth pdu, rq_json = None\<rparr>]\<rparr> \<and>
   (\<forall>r. respond n (sent n) (build_request pdu POST (cycle_url pdu i) None) = Some r
        \<longrightarrow> fst (cycle pdu i n) =
              (if error_status (status_code r) then Inl (HTTPError r) else Inr ()))"
  by (simp add: cycle_net cycle_result raise_for_status_def
        build_request_def cycle_url_def pathto_def)

text \<open>\<^verbatim>\<open>cycle(0)\<close> on the example host, under HTTP 200 and under HTTP 503.\<close>

theorem cycle_one_post_witness:
  "sent (snd (cycle demo 0 (answering 200 None)))
     = [\<lparr>rq_method = POST, rq_url = ''http://pdu.lan/restapi/relay/outlets/0/cycle/'',
         rq_headers = [(''X-CSRF'', ''X'')], rq_auth = (''admin'', ''1234''), rq_json = None\<rparr>] \<and>
   fst (cycle demo 0 (answering 200 None)) = Inr () \<and>
   fst (cycle demo 0 (answering 503 None))
     = Inl (HTTPError \<lparr>status_code = 503, body = [], decoded = None\<rparr>)"
proof -
  have a: "respond (answering 200 None) (sent (answering 200 None))
             (build_request demo POST (cycle_url demo 0) None)
           = Some \<lparr>status_code = 200, body = [], decoded = None\<rparr>"
    by (simp add: answering_def)
  have b: "respond (answering 503 None) (sent (answering 503 None))
             (build_request demo POST (cycle_url demo 0) None)
           = Some \<lparr>status_code = 503, body = [], decoded = None\<rparr>"
    by (simp add: answering_def)
  from cycle_one_post [of demo 0 "answering 200 None"] a
  have "fst (cycle demo 0 (answering 200 None)) =
     (if error_status (status_code \<lparr>status_code = 200, body = [], decoded = None\<rparr>)
      then Inl (HTTPError \<lparr>status_code = 200, body = [], decoded = None\<rparr>) else Inr ())"
    by blast
  then have r1: "fst (cycle demo 0 (answering 200 None)) = Inr ()"
    by (simp add: error_status_def)
  from cycle_one_post [of demo 0 "answering 503 None"] b
  have "fst (cycle demo 0 (answering 503 None)) =
     (if error_status (status_code \<lparr>status_code = 503, body = [], decoded = None\<rparr>)
      then Inl (HTTPError \<lparr>status_code = 503, body = [], decoded = None\<rparr>) else Inr ())"
    by blast
  then have r2: "fst (cycle demo 0 (answering 503 None))
     = Inl (HTTPError \<lparr>status_code = 503, body = [], decoded = None\<rparr>)"
    by (simp add: error_status_def)
  from cycle_one_post [of demo 0 "answering 200 None"]
  have "sent (snd (cycle demo 0 (answering 200 None))) =
     sent (answering 200 None) @ [\<lparr>rq_method = POST,
                rq_url = ''http://'' @ host demo @ ''/restapi/relay/outlets/'' @ str_int 0 @ ''/cycle/'',
                rq_headers = s_headers demo, rq_auth = s_auth demo, rq_json = None\<rparr>]"
    by simp
  then have r3: "sent (snd (cycle demo 0 (answering 200 None)))
     = [\<lparr>rq_method = POST, rq_url = ''http://pdu.lan/restapi/relay/outlets/0/cycle/'',
         rq_headers = [(''X-CSRF'', ''X'')], rq_auth = (''admin'', ''1234''), rq_json = None\<rparr>]"
    by (simp add: answering_def demo_def DLIPDU_init_def str_int_def str_nat.simps)
  from r1 r2 r3 show ?thesis by simp
qed

text \<open>
  C9. The three reads never call \<^verbatim>\<open>raise_for_status\<close>: whatever the status code of the
  response, \<^verbatim>\<open>configured_state\<close>, \<^verbatim>\<open>physical_state\<close> and \<^verbatim>\<open>outlets\<close> return what the
  body decodes to (or fail in the decoder), and none of them ever raises \<^verbatim>\<open>HTTPError\<close>.
\<close>

theorem reads_ignore_status:
  "(\<forall>r. respond n (sent n) (build_request pdu GET (state_url pdu i) None) = Some r
      \<longrightarrow> fst (configured_state pdu i n) =
            (case decoded r of None \<Rightarrow> Inl JSONDecodeError | Some j \<Rightarrow> Inr j)) \<and>
   (\<forall>r. respond n (sent n) (build_request pdu GET (physical_state_url pdu i) None) = Some r
      \<longrightarrow> fst (physical_state pdu i n) =
            (case decoded r of None \<Rightarrow> Inl JSONDecodeError | Some j \<Rightarrow> Inr j)) \<and>
   (\<forall>r. respond n (sent n) (build_request pdu GET (outlets_url pdu) None) = Some r
      \<longrightarrow> fst (outlets pdu n) =
            (case decoded r of None \<Rightarrow> Inl JSONDecodeError | Some j \<Rightarrow> Inr j)) \<and>
   (\<forall>x. fst (configured_state pdu i n) \<noteq> Inl (HTTPError x)
      \<and> fst (physical_state pdu i n) \<noteq> Inl (HTTPError x)
      \<and> fst (outlets pdu n) \<noteq> Inl (HTTPError x))"
  by (simp add: configured_state_def physical_state_def outlets_def get_json_result
        response_json_def split: option.splits)

text \<open>Responses with status 500, 404 and 401 whose bodies are JSON are returned decoded.\<close>

theorem reads_ignore_status_witness:
  "fst (configured_state demo 1 (answering 500 (Some (JBool True)))) = Inr (JBool True) \<and>
   fst (physical_state demo 1 (answering 404 (Some (JBool False)))) = Inr (JBool False) \<and>
   fst (outlets demo (answering 401 (Some (JArr [])))) = Inr (JArr [])"
proof -
  have a: "respond (answering 500 (Some (JBool True))) (sent (answering 500 (Some (JBool True))))
             (build_request demo GET (state_url demo 1) None)
           = Some \<lparr>status_code = 500, body = [], decoded = Some (JBool True)\<rparr>"
    by (simp add: answering_def)
  have b: "respond (answering 404 (Some (JBool False))) (sent (answering 404 (Some (JBool False))))
             (build_request demo GET (physical_state_url demo 1) None)
           = Some \<lparr>status_code = 404, body = [], decoded = Some (JBool False)\<rparr>"
    by (simp add: answering_def)
  have c: "respond (answering 401 (Some (JArr []))) (sent (answering 401 (Some (JArr []))))
             (build_request demo GET (outlets_url demo) None)
           = Some \<lparr>status_code = 401, body = [], decoded = Some (JArr [])\<rparr>"
    by (simp add: answering_def)
  from reads_ignore_status [of "answering 500 (Some (JBool True))" demo 1] a
  have "fst (configured_state demo 1 (answering 500 (Some (JBool True)))) =
     (case decoded \<lparr>status_code = 500, body = [], decoded = Some (JBool True)\<rparr> of
        None \<Rightarrow> Inl JSONDecodeError | Some j \<Rightarrow> Inr j)" by blast
  then have r1: "fst (configured_state demo 1 (answering 500 (Some (JBool True)))) = Inr (JBool True)"
    by simp
  from reads_ignore_status [of "answering 404 (Some (JBool False))" demo 1] b
  have "fst (physical_state demo 1 (answering 404 (Some (JBool False)))) =
     (case decoded \<lparr>status_code = 404, body = [], decoded = Some (JBool False)\<rparr> of
        None \<Rightarrow> Inl JSONDecodeError | Some j \<Rightarrow> Inr j)" by blast
  then have r2: "fst (physical_state demo 1 (answering 404 (Some (JBool False)))) = Inr (JBool False)"
    by simp
  from reads_ignore_status [of "answering 401 (Some (JArr []))" demo 1] c
  have "fst (outlets demo (answering 401 (Some (JArr [])))) =
     (case decoded \<lparr>status_code = 401, body = [], decoded = Some (JArr [])\<rparr> of
        None \<Rightarrow> Inl JSONDecodeError | Some j \<Rightarrow> Inr j)" by blast
  then have r3: "fst (outlets demo (answering 401 (Some (JArr [])))) = Inr (JArr [])"
    by simp
  from r1 r2 r3 show ?thesis by simp
qed

section \<open>Resolving an outlet by name\<close>

lemma scan_outlets_found:
  "scan_outlets tok k xs = Inr i \<Longrightarrow>
     \<exists>m<length xs. i = int (k + m) \<and> getitem (xs ! m) ''name'' = Inr (JStr tok)
        \<and> (\<forall>j<m. getitem (xs ! j) ''name'' \<noteq> Inr (JStr tok))"
proof (induction xs arbitrary: k)
  case Nil
  then show ?case by simp
next
  case (Cons x xs)
  show ?case
  proof (cases "getitem x ''name'' = Inr (JStr tok)")
    case True
    with Cons.prems have "i = int k" by simp
    with True show ?thesis by (intro exI [of _ 0]) simp
  next
    case False
    with Cons.prems have "scan_outlets tok (Suc k) xs = Inr i"
      by (auto split: sum.splits if_splits)
    from Cons.IH [OF this] obtain m where m: "m < length xs" "i = int (Suc k + m)"
      "getitem (xs ! m) ''name'' = Inr (JStr tok)"
      "\<forall>j<m. getitem (xs ! j) ''name'' \<noteq> Inr (JStr tok)" by blast
    have "\<forall>j<Suc m. getitem ((x # xs) ! j) ''name'' \<noteq> Inr (JStr tok)"
      using False m(4) by (auto simp: less_Suc_eq_0_disj)
    with m show ?thesis by (intro exI [of _ "Suc m"]) simp
  qed
qed

lemma scan_outlets_error:
  "scan_outlets tok k xs = Inl e \<Longrightarrow> \<forall>x\<in>set xs. \<not> isl (getitem x ''name'') \<Longrightarrow>
     e = no_outlet tok \<and> (\<forall>x\<in>set xs. getitem x ''name'' \<noteq> Inr (JStr tok))"
  by (induction xs arbitrary: k) (auto split: sum.splits if_splits)

lemma scan_outlets_first:
  "m < length xs \<Longrightarrow> getitem (xs ! m) ''name'' = Inr (JStr tok) \<Longrightarrow>
   \<forall>j<m. \<not> isl (getitem (xs ! j) ''name'') \<and> getitem (xs ! j) ''name'' \<noteq> Inr (JStr tok) \<Longrightarrow>
   scan_outlets tok k xs = Inr (int (k + m))"
proof (induction xs arbitrary: k m)
  case Nil
  then show ?case by simp
next
  case (Cons x xs)
  show ?case
  proof (cases m)
    case 0
    with Cons.prems(2) show ?thesis by simp
  next
    case (Suc m')
    from Cons.prems(3) Suc
    have x: "\<not> isl (getitem x ''name'')" "getitem x ''name'' \<noteq> Inr (JStr tok)"
      by auto
    from Cons.prems(3) Suc
    have rest: "\<forall>j<m'. \<not> isl (getitem (xs ! j) ''name'')
                  \<and> getitem (xs ! j) ''name'' \<noteq> Inr (JStr tok)"
      by auto
    from Cons.prems(1,2) Suc have "m' < length xs" "getitem (xs ! m') ''name'' = Inr (JStr tok)"
      by simp_all
    from Cons.IH [OF this rest, of "Suc k"]
    have "scan_outlets tok (Suc k) xs = Inr (int (k + m))" using Suc by simp
    with x show ?thesis by (auto split: sum.splits)
  qed
qed

lemma outlet2idx_after_outlets:
  assumes "int_of tok = None" and "fst (outlets pdu n) = Inr (JArr xs)"
  shows "fst (outlet2idx int_of pdu tok n) = scan_outlets tok 0 xs"
proof -
  from assms(2) obtain n' where "outlets pdu n = (Inr (JArr xs), n')"
    by (cases "outlets pdu n") auto
  with assms(1) show ?thesis by (simp add: outlet2idx_def)
qed

lemma outlet2idx_by_name_result:
  assumes "int_of tok = None"
    and "respond n (sent n) (build_request pdu GET (outlets_url pdu) None) = Some r"
    and "decoded r = Some (JArr xs)"
  shows "fst (outlet2idx int_of pdu tok n) = scan_outlets tok 0 xs"
proof -
  have "fst (outlets pdu n) = Inr (JArr xs)"
    using assms(2,3) by (simp add: outlets_def get_json_result response_json_def)
  with assms(1) show ?thesis by (rule outlet2idx_after_outlets [of int_of tok pdu n xs])
qed

text \<open>
  C3. For every token that \<^verbatim>\<open>int\<close> refuses (\<^verbatim>\<open>int(outlet)\<close> raises \<^verbatim>\<open>ValueError\<close>), on a
  device that answers the listing with an array of objects that all have a \<^verbatim>\<open>name\<close>: either \<^verbatim>\<open>_outlet2idx\<close> returns the position
  of an outlet whose name is exactly the token (the first such position), or no outlet
  has that name and it raises \<^verbatim>\<open>KeyError\<close> with the message that no such outlet exists
  (the specification's NotFoundError).
\<close>

theorem outlet2idx_by_name:
  assumes "int_of tok = None"
    and "respond n (sent n) (build_request pdu GET (outlets_url pdu) None) = Some r"
    and "decoded r = Some (JArr xs)"
    and "\<forall>x\<in>set xs. \<not> isl (getitem x ''name'')"
  shows "(\<exists>i<length xs. fst (outlet2idx int_of pdu tok n) = Inr (int i)
            \<and> getitem (xs ! i) ''name'' = Inr (JStr tok)
            \<and> (\<forall>j<i. getitem (xs ! j) ''name'' \<noteq> Inr (JStr tok)))
       \<or> (fst (outlet2idx int_of pdu tok n) = Inl (no_outlet tok)
            \<and> (\<forall>x\<in>set xs. getitem x ''name'' \<noteq> Inr (JStr tok)))"
proof (cases "scan_outlets tok 0 xs")
  case (Inl e)
  from scan_outlets_error [OF Inl assms(4)] Inl
    outlet2idx_by_name_result [of int_of tok n pdu r xs, OF assms(1,2,3)]
  show ?thesis by simp
next
  case (Inr i)
  from scan_outlets_found [OF Inr] Inr
    outlet2idx_by_name_result [of int_of tok n pdu r xs, OF assms(1,2,3)]
  show ?thesis by auto
qed

text \<open>
  Over lamp, pump and fan, \<^verbatim>\<open>"pump"\<close> resolves to 1 and \<^verbatim>\<open>"missing"\<close> raises.
\<close>

theorem outlet2idx_by_name_witness:
  "ascii_int ''pump'' = None \<and> ascii_int ''missing'' = None \<and>
   fst (outlet2idx ascii_int demo ''pump''
     (answering 200 (Some (JArr [named ''lamp'', named ''pump'', named ''fan''])))) = Inr 1 \<and>
   fst (outlet2idx ascii_int demo ''missing''
     (answering 200 (Some (JArr [named ''lamp'', named ''pump'', named ''fan'']))))
     = Inl (KeyError ''no outlet called `missing` exists'')"
proof -
  let ?xs = "[named ''lamp'', named ''pump'', named ''fan'']"
  let ?n = "answering 200 (Some (JArr ?xs))"
  let ?r = "\<lparr>status_code = 200, body = [], decoded = Some (JArr ?xs)\<rparr>"
  have p: "ascii_int ''pump'' = None" by code_simp
  have q: "ascii_int ''missing'' = None" by code_simp
  have a: "respond ?n (sent ?n) (build_request demo GET (outlets_url demo) None) = Some ?r"
    by (simp add: answering_def)
  have b: "decoded ?r = Some (JArr ?xs)" by simp
  have c: "\<forall>x\<in>set ?xs. \<not> isl (getitem x ''name'')"
    by (simp add: named_def dict_get_def)
  have nm: "getitem (?xs ! 0) ''name'' = Inr (JStr ''lamp'')"
      "getitem (?xs ! 1) ''name'' = Inr (JStr ''pump'')"
      "getitem (?xs ! 2) ''name'' = Inr (JStr ''fan'')"
    by (simp_all add: named_def dict_get_def)
  have len: "length ?xs = 3" by simp
  from outlet2idx_by_name [of ascii_int "''pump''" ?n demo ?r ?xs, OF p a b c]
  have "\<exists>i<length ?xs. fst (outlet2idx ascii_int demo ''pump'' ?n) = Inr (int i)
            \<and> getitem (?xs ! i) ''name'' = Inr (JStr ''pump'')"
    by (auto simp: named_def dict_get_def)
  then obtain i where i: "i < 3" "fst (outlet2idx ascii_int demo ''pump'' ?n) = Inr (int i)"
     "getitem (?xs ! i) ''name'' = Inr (JStr ''pump'')" by auto
  from i(1) have "i = 0 \<or> i = 1 \<or> i = 2" by arith
  with i(3) have "i = 1" by (auto simp: named_def dict_get_def)
  with i(2) have r1: "fst (outlet2idx ascii_int demo ''pump'' ?n) = Inr 1" by simp
  from outlet2idx_by_name [of ascii_int "''missing''" ?n demo ?r ?xs, OF q a b c]
  have "fst (outlet2idx ascii_int demo ''missing'' ?n) = Inl (no_outlet ''missing'')"
    by (auto simp: named_def dict_get_def less_Suc_eq numeral_3_eq_3)
  then have r2: "fst (outlet2idx ascii_int demo ''missing'' ?n)
     = Inl (KeyError ''no outlet called `missing` exists'')"
    by (simp add: no_outlet_def)
  from p q r1 r2 show ?thesis by simp
qed

section \<open>The range of a resolved index\<close>

text \<open>
  C5, as stated, does not hold. On a device reporting three outlets the token \<^verbatim>\<open>"7"\<close>
  resolves to 7 and \<^verbatim>\<open>"-1"\<close> to -1, both outside the range of positions; and where two
  outlets are both named \<^verbatim>\<open>pump\<close> (positions 0 and 2) the token \<^verbatim>\<open>"pump"\<close> resolves to 0
  without any error.
\<close>

theorem outlet2idx_range_counterexample:
  "fst (outlets demo (answering 200 (Some (JArr [named ''lamp'', named ''pump'', named ''fan'']))))
     = Inr (JArr [named ''lamp'', named ''pump'', named ''fan'']) \<and>
   fst (outlet2idx ascii_int demo ''7'' (answering 200 (Some (JArr [named ''lamp'', named ''pump'', named ''fan'']))))
     = Inr 7 \<and>
   \<not> (7 < int (length [named ''lamp'', named ''pump'', named ''fan''])) \<and>
   fst (outlet2idx ascii_int demo ''-1'' (answering 200 (Some (JArr [named ''lamp'', named ''pump'', named ''fan'']))))
     = Inr (- 1) \<and>
   fst (outlet2idx ascii_int demo ''pump'' (answering 200 (Some (JArr [named ''pump'', named ''lamp'', named ''pump'']))))
     = Inr 0"
  by code_simp

text \<open>
  C5, amended. A numeric token is returned as the integer it denotes, without a look at
  the device, so without any comparison with the number of outlets. A token resolved by
  name gives, when it gives an index at all, a position within the device's list of
  outlets: the first position whose outlet has exactly that name. And where an outlet at
  position \<open>m\<close> has the name and the outlets before it have other names, \<open>m\<close> is returned,
  whatever follows: outlets further on that share the name raise no error.
\<close>

theorem outlet2idx_range:
  "(int_of tok = Some k \<longrightarrow> outlet2idx int_of pdu tok n = (Inr k, n)) \<and>
   (int_of tok = None \<and> fst (outlets pdu n) = Inr (JArr xs)
      \<and> fst (outlet2idx int_of pdu tok n) = Inr i
    \<longrightarrow> 0 \<le> i \<and> i < int (length xs)
        \<and> getitem (xs ! nat i) ''name'' = Inr (JStr tok)
        \<and> (\<forall>j<nat i. getitem (xs ! j) ''name'' \<noteq> Inr (JStr tok))) \<and>
   (int_of tok = None \<and> fst (outlets pdu n) = Inr (JArr xs)
      \<and> m < length xs \<and> getitem (xs ! m) ''name'' = Inr (JStr tok)
      \<and> (\<forall>j<m. \<not> isl (getitem (xs ! j) ''name'')
                \<and> getitem (xs ! j) ''name'' \<noteq> Inr (JStr tok))
    \<longrightarrow> fst (outlet2idx int_of pdu tok n) = Inr (int m))"
proof (intro conjI impI)
  assume "int_of tok = Some k"
  then show "outlet2idx int_of pdu tok n = (Inr k, n)" by (simp add: outlet2idx_def)
next
  assume a: "int_of tok = None \<and> fst (outlets pdu n) = Inr (JArr xs)
      \<and> fst (outlet2idx int_of pdu tok n) = Inr i"
  then have "scan_outlets tok 0 xs = Inr i"
    using outlet2idx_after_outlets [of int_of tok pdu n xs] by simp
  from scan_outlets_found [OF this] obtain m where m: "m < length xs" "i = int m"
    "getitem (xs ! m) ''name'' = Inr (JStr tok)"
    "\<forall>j<m. getitem (xs ! j) ''name'' \<noteq> Inr (JStr tok)" by auto
  then show "0 \<le> i" "i < int (length xs)"
    "getitem (xs ! nat i) ''name'' = Inr (JStr tok)"
    "\<forall>j<nat i. getitem (xs ! j) ''name'' \<noteq> Inr (JStr tok)" by simp_all
next
  assume b: "int_of tok = None \<and> fst (outlets pdu n) = Inr (JArr xs)
      \<and> m < length xs \<and> getitem (xs ! m) ''name'' = Inr (JStr tok)
      \<and> (\<forall>j<m. \<not> isl (getitem (xs ! j) ''name'')
                \<and> getitem (xs ! j) ''name'' \<noteq> Inr (JStr tok))"
  then have "scan_outlets tok 0 xs = Inr (int (0 + m))"
    by (intro scan_outlets_first) simp_all
  with b show "fst (outlet2idx int_of pdu tok n) = Inr (int m)"
    using outlet2idx_after_outlets [of int_of tok pdu n xs] by simp
qed

text \<open>
  Over lamp, pump and pump: \<^verbatim>\<open>"7"\<close> gives 7 with the network untouched, and \<^verbatim>\<open>"pump"\<close>
  gives 1, the first of the two positions named pump, which is within the three
  positions.
\<close>

theorem outlet2idx_range_witness:
  "outlet2idx ascii_int demo ''7'' (answering 200 (Some (JArr [named ''lamp'', named ''pump'', named ''pump''])))
     = (Inr 7, answering 200 (Some (JArr [named ''lamp'', named ''pump'', named ''pump'']))) \<and>
   fst (outlet2idx ascii_int demo ''pump'' (answering 200 (Some (JArr [named ''lamp'', named ''pump'', named ''pump'']))))
     = Inr 1 \<and>
   (1::int) < int (length [named ''lamp'', named ''pump'', named ''pump'']) \<and>
   getitem ([named ''lamp'', named ''pump'', named ''pump''] ! nat 1) ''name'' = Inr (JStr ''pump'') \<and>
   getitem ([named ''lamp'', named ''pump'', named ''pump''] ! 2) ''name'' = Inr (JStr ''pump'') \<and>
   getitem ([named ''lamp'', named ''pump'', named ''pump''] ! 0) ''name'' \<noteq> Inr (JStr ''pump'')"
proof -
  let ?xs = "[named ''lamp'', named ''pump'', named ''pump'']"
  let ?n = "answering 200 (Some (JArr ?xs))"
  have h7: "ascii_int ''7'' = Some 7" by code_simp
  have p: "ascii_int ''pump'' = None" by code_simp
  have o: "fst (outlets demo ?n) = Inr (JArr ?xs)" by code_simp
  have g1: "getitem (?xs ! 1) ''name'' = Inr (JStr ''pump'')"
    by (simp add: named_def dict_get_def)
  have g2: "getitem (?xs ! 2) ''name'' = Inr (JStr ''pump'')"
    by (simp add: named_def dict_get_def)
  have g0: "\<forall>j<1. \<not> isl (getitem (?xs ! j) ''name'')
               \<and> getitem (?xs ! j) ''name'' \<noteq> Inr (JStr ''pump'')"
    by (simp add: named_def dict_get_def)
  have l: "(1::nat) < length ?xs" by simp
  note t = outlet2idx_range [of ascii_int "''7''" 7 demo ?n ?xs 1 1]
  from t h7 have r7: "outlet2idx ascii_int demo ''7'' ?n = (Inr 7, ?n)" by blast
  note u = outlet2idx_range [of ascii_int "''pump''" 0 demo ?n ?xs 1 1]
  from u p o l g1 g0 have r: "fst (outlet2idx ascii_int demo ''pump'' ?n) = Inr (int 1)"
    by blast
  then have r': "fst (outlet2idx ascii_int demo ''pump'' ?n) = Inr 1" by simp
  from u p o r'
  have c: "0 \<le> (1::int) \<and> 1 < int (length ?xs)
        \<and> getitem (?xs ! nat 1) ''name'' = Inr (JStr ''pump'')
        \<and> (\<forall>j<nat 1. getitem (?xs ! j) ''name'' \<noteq> Inr (JStr ''pump''))"
    by blast
  then have "getitem (?xs ! 0) ''name'' \<noteq> Inr (JStr ''pump'')" by simp
  with r7 r' c g2 show ?thesis by blast
qed

section \<open>The commands\<close>

text \<open>
  C10. Once the outlet argument has resolved to an index, the \<^verbatim>\<open>set\<close> command is one
  call of \<^verbatim>\<open>set_state\<close> with the boolean \<^verbatim>\<open>state == 'on'\<close>; it does not go through \<^verbatim>\<open>on\<close>
  or \<^verbatim>\<open>off\<close>. So \<^verbatim>\<open>set <outlet> off\<close> sends the desired state false and
  \<^verbatim>\<open>set <outlet> on\<close> sends true.
\<close>

theorem cli_set_sends_choice:
  "outlet2idx int_of pdu outlet n = (Inr i, n') \<Longrightarrow>
     (\<forall>st. cli_set int_of pdu outlet st n = set_state pdu i (st = ''on'') n') \<and>
     sent (snd (cli_set int_of pdu outlet ''off'' n)) =
       sent n' @ [build_request pdu PUT (state_url pdu i) (Some (JBool False))] \<and>
     sent (snd (cli_set int_of pdu outlet ''on'' n)) =
       sent n' @ [build_request pdu PUT (state_url pdu i) (Some (JBool True))]"
  by (simp add: cli_set_def set_state_net)

text \<open>\<^verbatim>\<open>set 2 off\<close> and \<^verbatim>\<open>set 2 on\<close> on the example host.\<close>

theorem cli_set_sends_choice_witness:
  "sent (snd (cli_set ascii_int demo ''2'' ''off'' (answering 200 None))) =
     [\<lparr>rq_method = PUT, rq_url = ''http://pdu.lan/restapi/relay/outlets/2/state/'',
       rq_headers = [(''X-CSRF'', ''X'')], rq_auth = (''admin'', ''1234''),
       rq_json = Some (JBool False)\<rparr>] \<and>
   sent (snd (cli_set ascii_int demo ''2'' ''on'' (answering 200 None))) =
     [\<lparr>rq_method = PUT, rq_url = ''http://pdu.lan/restapi/relay/outlets/2/state/'',
       rq_headers = [(''X-CSRF'', ''X'')], rq_auth = (''admin'', ''1234''),
       rq_json = Some (JBool True)\<rparr>]"
proof -
  have p: "ascii_int ''2'' = Some 2" by code_simp
  then have h: "outlet2idx ascii_int demo ''2'' (answering 200 None) = (Inr 2, answering 200 None)"
    by (simp add: outlet2idx_def)
  have u: "state_url demo 2 = ''http://pdu.lan/restapi/relay/outlets/2/state/''"
    by (simp add: state_url_def pathto_def demo_def DLIPDU_init_def str_int_def str_nat.simps)
  have s0: "sent (answering 200 None) = []" by (simp add: answering_def)
  have d: "s_headers demo = [(''X-CSRF'', ''X'')]" "s_auth demo = (''admin'', ''1234'')"
    by (simp_all add: demo_def DLIPDU_init_def)
  from cli_set_sends_choice [of ascii_int demo "''2''" "answering 200 None" 2 "answering 200 None", OF h]
  have "sent (snd (cli_set ascii_int demo ''2'' ''off'' (answering 200 None))) =
       sent (answering 200 None) @ [build_request demo PUT (state_url demo 2) (Some (JBool False))]"
    and "sent (snd (cli_set ascii_int demo ''2'' ''on'' (answering 200 None))) =
       sent (answering 200 None) @ [build_request demo PUT (state_url demo 2) (Some (JBool True))]"
    by blast+
  then show ?thesis by (simp add: s0 u d build_request_def)
qed

text \<open>
  The row of one outlet whose states are booleans and whose \<^verbatim>\<open>cycle_delay\<close> is null or
  an integer: the placeholder stands for null and for zero, the decimal digits for any
  other delay.
\<close>

lemma outlet_rows_single:
  assumes "dict_get kvs ''name'' = Some nm" and "dict_get kvs ''state'' = Some (JBool st)"
    and "dict_get kvs ''physical_state'' = Some (JBool ph)"
    and "dict_get kvs ''cycle_delay'' = Some cd"
    and "cd = JNull \<or> cd = JInt d"
  shows "outlet_rows i [JObj kvs] =
     Inr [\<lparr>col_idx = str_int (int i), col_name = nm,
           col_configured = (if st then ''on'' else ''off''),
           col_physical = (if ph then ''on'' else ''off''),
           col_cycle = (if cd = JNull \<or> d = 0 then Some wave_dash else Some (str_int d))\<rparr>]"
  using assms by (auto simp: cli_on_def py_or_def)

text \<open>
  C8. The claim: each outlet becomes one row of index, name, configured state as on/off,
  physical state as on/off, and \<^verbatim>\<open>cycle_delay\<close> as its numeric value or, when null, a
  placeholder. The code renders the last cell as \<^verbatim>\<open>str(outlet['cycle_delay'] or '...')\<close>,
  and \<^verbatim>\<open>or\<close> takes the placeholder for every falsy value: a delay of 0 is shown as the
  placeholder, exactly as null is, and not as \<^verbatim>\<open>0\<close>. The example of the specification
  (null) and a delay of 5 come out as the claim says.
\<close>

theorem outlets_zero_delay_placeholder:
  "fst (cli_outlets demo (answering 200 (Some (JArr
      [JObj [(''name'', JStr ''A''), (''state'', JBool True),
             (''physical_state'', JBool False), (''cycle_delay'', JInt 0)]]))))
   = Inr [\<lparr>col_idx = ''0'', col_name = JStr ''A'', col_configured = ''on'',
            col_physical = ''off'', col_cycle = Some wave_dash\<rparr>] \<and>
   fst (cli_outlets demo (answering 200 (Some (JArr
      [JObj [(''name'', JStr ''A''), (''state'', JBool True),
             (''physical_state'', JBool False), (''cycle_delay'', JNull)]]))))
   = Inr [\<lparr>col_idx = ''0'', col_name = JStr ''A'', col_configured = ''on'',
            col_physical = ''off'', col_cycle = Some wave_dash\<rparr>] \<and>
   fst (cli_outlets demo (answering 200 (Some (JArr
      [JObj [(''name'', JStr ''A''), (''state'', JBool True),
             (''physical_state'', JBool False), (''cycle_delay'', JInt 5)]]))))
   = Inr [\<lparr>col_idx = ''0'', col_name = JStr ''A'', col_configured = ''on'',
            col_physical = ''off'', col_cycle = Some ''5''\<rparr>] \<and>
   wave_dash \<noteq> ''0''"
  by code_simp

end
